theory Spec2Isabelle
  imports Main "HOL-Library.AList" "HOL-Library.Sublist"
begin

section \<open>Python strings and dictionaries\<close>

text \<open>
  The translation applicator (\<^verbatim>\<open>translations_applicator.py\<close>, function
  \<^verbatim>\<open>process_single_file\<close>) works on Python strings and dictionaries. A string is
  modelled as a list of characters; the character classes used below (whitespace, digits,
  word characters, lower case) are the ASCII part of Python's. A dictionary is an
  association list with distinct keys in insertion order: \<open>map_of\<close> reads it and
  \<open>AList.update\<close> assigns to a key, in place when the key exists and at the end otherwise,
  which is the order Python iterates in.
\<close>

type_synonym ('k, 'v) dict = "('k \<times> 'v) list"

definition keys :: "('k, 'v) dict \<Rightarrow> 'k list" where
  "keys d = map fst d"

definition has_key :: "('k, 'v) dict \<Rightarrow> 'k \<Rightarrow> bool" where
  "has_key d k = (map_of d k \<noteq> None)"

text \<open>\<^verbatim>\<open>d.update(other)\<close>: assigns the items of \<open>other\<close> in their order.\<close>

definition dict_update :: "('k, 'v) dict \<Rightarrow> ('k, 'v) dict \<Rightarrow> ('k, 'v) dict" where
  "dict_update d other = fold (\<lambda>(k, v). AList.update k v) other d"

text \<open>\<^verbatim>\<open>sub in s\<close> on strings.\<close>

primrec contains :: "string \<Rightarrow> string \<Rightarrow> bool" where
  "contains [] sub = (sub = [])"
| "contains (c # cs) sub = (prefix sub (c # cs) \<or> contains cs sub)"

text \<open>\<^verbatim>\<open>str.isspace\<close> on ASCII: tab, line feed, vertical tab, form feed, carriage return,
  the four separators 0x1c to 0x1f, and the space.\<close>

definition is_space :: "char \<Rightarrow> bool" where
  "is_space c = (of_char c \<in> {9, 10, 11, 12, 13, 28, 29, 30, 31, 32 :: nat})"

definition strip :: "string \<Rightarrow> string" where
  "strip s = rev (dropWhile is_space (rev (dropWhile is_space s)))"

text \<open>\<^verbatim>\<open>s.split()\<close>: the maximal runs of characters that are not whitespace. The first
  argument is the word being read.\<close>

fun split_ws :: "string \<Rightarrow> string \<Rightarrow> string list" where
  "split_ws w [] = (if w = [] then [] else [w])"
| "split_ws w (c # cs) =
     (if is_space c then (if w = [] then split_ws [] cs else w # split_ws [] cs)
      else split_ws (w @ [c]) cs)"

definition split_words :: "string \<Rightarrow> string list" where
  "split_words s = split_ws [] s"

definition upper_letters :: string where
  "upper_letters = ''ABCDEFGHIJKLMNOPQRSTUVWXYZ''"

definition lower_letters :: string where
  "lower_letters = ''abcdefghijklmnopqrstuvwxyz''"

definition lower_char :: "char \<Rightarrow> char" where
  "lower_char c = (case map_of (zip upper_letters lower_letters) c of Some l \<Rightarrow> l | None \<Rightarrow> c)"

definition lower :: "string \<Rightarrow> string" where
  "lower s = map lower_char s"

definition digits :: string where
  "digits = ''0123456789''"

text \<open>\<^verbatim>\<open>s.isdigit()\<close>: not empty and digits only.\<close>

definition isdigit :: "string \<Rightarrow> bool" where
  "isdigit s = (s \<noteq> [] \<and> list_all (\<lambda>c. c \<in> set digits) s)"

text \<open>\<^verbatim>\<open>s.replace(c, "")\<close> for a single character.\<close>

definition remove_char :: "char \<Rightarrow> string \<Rightarrow> string" where
  "remove_char c s = filter (\<lambda>x. x \<noteq> c) s"

text \<open>\<^verbatim>\<open>s.split(sep)\<close> for a single character separator.\<close>

fun split_on :: "char \<Rightarrow> string \<Rightarrow> string list" where
  "split_on d [] = [[]]"
| "split_on d (c # cs) =
     (if c = d then [] # split_on d cs
      else (case split_on d cs of [] \<Rightarrow> [[c]] | p # ps \<Rightarrow> (c # p) # ps))"

definition digit_val :: "char \<Rightarrow> nat" where
  "digit_val c = of_char c - 48"

text \<open>\<^verbatim>\<open>int(s)\<close> on the strings that reach it here, which hold digits and dots only: a
  string of digits has a value, anything else raises ValueError (\<open>None\<close>). The limit that
  recent interpreters put on the number of digits is left out.\<close>

definition py_int :: "string \<Rightarrow> nat option" where
  "py_int s = (if isdigit s then Some (foldl (\<lambda>a c. 10 * a + digit_val c) 0 s) else None)"

definition digit_char :: "nat \<Rightarrow> char" where
  "digit_char n = digits ! n"

text \<open>\<^verbatim>\<open>str(n)\<close> for a natural number.\<close>

fun str_nat :: "nat \<Rightarrow> string" where
  "str_nat n = (if n < 10 then [digit_char n] else str_nat (n div 10) @ [digit_char (n mod 10)])"

declare str_nat.simps [simp del]

section \<open>Loading the special cases\<close>

text \<open>
  Every loop over registry ids starts with the same test and the same \<^verbatim>\<open>try\<close> block:
  \<^verbatim>\<open>if "-" in id_item and id_item.replace("-", "").replace(".", "").isdigit():\<close>
  \<^verbatim>\<open>  try: start, end = id_item.split("-"); start_id = int(start); end_id = int(end)\<close>
  \<^verbatim>\<open>  except ValueError: print("Error parsing ... range")\<close>
  Unpacking anything but two parts and \<^verbatim>\<open>int\<close> of a part that is not a number raise
  ValueError before anything is stored.
\<close>

datatype id_form = SingleId | RangeId nat nat | BadRange

definition classify_id :: "string \<Rightarrow> id_form" where
  "classify_id id_item =
     (if CHR ''-'' \<in> set id_item
         \<and> isdigit (remove_char CHR ''.'' (remove_char CHR ''-'' id_item))
      then (case split_on CHR ''-'' id_item of
              [start, end] \<Rightarrow>
                (case py_int start of
                   None \<Rightarrow> BadRange
                 | Some start_id \<Rightarrow>
                     (case py_int end of
                        None \<Rightarrow> BadRange
                      | Some end_id \<Rightarrow> RangeId start_id end_id))
            | _ \<Rightarrow> BadRange)
      else SingleId)"

text \<open>The lines the loader prints: the category, the id as written, and for an expanded
  range the number \<^verbatim>\<open>end_id - start_id + 1\<close> it reports.\<close>

datatype load_msg =
    Expanded string string int
  | RangeParseError string string
  | AddedId string string

text \<open>\<^verbatim>\<open>for id_num in range(start_id, end_id + 1): d[str(id_num)] = value\<close>\<close>

definition store_range :: "nat \<Rightarrow> nat \<Rightarrow> 'v \<Rightarrow> (string, 'v) dict \<Rightarrow> (string, 'v) dict" where
  "store_range start_id end_id v d =
     fold (\<lambda>id_num. AList.update (str_nat id_num) v) [start_id..<end_id + 1] d"

record override_entry =
  oe_id :: string
  oe_translation :: string
  oe_reason :: string

record override_data =
  translation :: string
  reason :: string

definition add_override ::
  "override_entry \<Rightarrow> (string, override_data) dict \<times> load_msg list
     \<Rightarrow> (string, override_data) dict \<times> load_msg list" where
  "add_override e = (\<lambda>(d, msgs).
     (let v = \<lparr>translation = oe_translation e, reason = oe_reason e\<rparr> in
      case classify_id (oe_id e) of
        RangeId start_id end_id \<Rightarrow>
          (store_range start_id end_id v d,
           msgs @ [Expanded ''override_translation'' (oe_id e) (int end_id - int start_id + 1)])
      | BadRange \<Rightarrow> (d, msgs @ [RangeParseError ''override_translation'' (oe_id e)])
      | SingleId \<Rightarrow>
          (AList.update (oe_id e) v d, msgs @ [AddedId ''override_translation'' (oe_id e)])))"

record pattern_config =
  regex :: string
  template :: string
  description :: string

record transform_entry =
  te_id :: string
  te_patterns :: "pattern_config list"
  te_reason :: string

record transform_data =
  patterns :: "pattern_config list"
  treason :: string

definition add_transform ::
  "transform_entry \<Rightarrow> (string, transform_data) dict \<times> load_msg list
     \<Rightarrow> (string, transform_data) dict \<times> load_msg list" where
  "add_transform e = (\<lambda>(d, msgs).
     (let v = \<lparr>patterns = te_patterns e, treason = te_reason e\<rparr> in
      case classify_id (te_id e) of
        RangeId start_id end_id \<Rightarrow>
          (store_range start_id end_id v d,
           msgs @ [Expanded ''transform_translation'' (te_id e) (int end_id - int start_id + 1)])
      | BadRange \<Rightarrow> (d, msgs @ [RangeParseError ''transform_translation'' (te_id e)])
      | SingleId \<Rightarrow>
          (AList.update (te_id e) v d, msgs @ [AddedId ''transform_translation'' (te_id e)])))"

record no_translation_entry =
  ne_id :: string
  ne_comment :: string

text \<open>\<^verbatim>\<open>global_no_translation_ids\<close> is a Python set of ids.\<close>

definition add_no_translation ::
  "no_translation_entry \<Rightarrow> string set \<times> load_msg list \<Rightarrow> string set \<times> load_msg list" where
  "add_no_translation e = (\<lambda>(ids, msgs).
     (case classify_id (ne_id e) of
        RangeId start_id end_id \<Rightarrow>
          (fold (\<lambda>id_num. insert (str_nat id_num)) [start_id..<end_id + 1] ids,
           msgs @ [Expanded ''no_translation'' (ne_id e) (int end_id - int start_id + 1)])
      | BadRange \<Rightarrow> (ids, msgs @ [RangeParseError ''no_translation'' (ne_id e)])
      | SingleId \<Rightarrow> (insert (ne_id e) ids, msgs @ [AddedId ''no_translation'' (ne_id e)])))"

text \<open>The remaining top-level keys are the legacy special cases; a single id prints nothing.\<close>

record special_case =
  case_type :: "string option"
  case_translations :: "(string, string) dict"
  case_reason :: string

definition add_special_case ::
  "string \<times> special_case \<Rightarrow> (string, special_case) dict \<times> load_msg list
     \<Rightarrow> (string, special_case) dict \<times> load_msg list" where
  "add_special_case = (\<lambda>(key, v) (d, msgs).
     (case classify_id key of
        RangeId start_id end_id \<Rightarrow>
          (store_range start_id end_id v d,
           msgs @ [Expanded ''special_cases'' key (int end_id - int start_id + 1)])
      | BadRange \<Rightarrow> (d, msgs @ [RangeParseError ''special_cases'' key])
      | SingleId \<Rightarrow> (AList.update key v d, msgs)))"

record block_info =
  content :: string
  block_reason :: string

text \<open>The parsed special-cases file: the payload of each recognised top-level key (a key
  that is absent reads as empty) and the remaining keys in file order.\<close>

record special_cases_data =
  add_translation :: "(string, string) dict"
  add_block :: "(string, block_info) dict"
  override_translation :: "override_entry list"
  transform_translation :: "transform_entry list"
  no_translation :: "no_translation_entry list"
  other_keys :: "(string, special_case) dict"

record registry =
  special_cases :: "(string, special_case) dict"
  global_add_translations :: "(string, string) dict"
  global_no_translation_ids :: "string set"
  global_override_translations :: "(string, override_data) dict"
  global_transform_translations :: "(string, transform_data) dict"
  add_block_data :: "(string, block_info) dict"

definition empty_registry :: registry where
  "empty_registry =
     \<lparr>special_cases = [], global_add_translations = [], global_no_translation_ids = {},
      global_override_translations = [], global_transform_translations = [],
      add_block_data = []\<rparr>"

text \<open>\<open>None\<close> is a file that does not exist or does not parse: nothing is stored.\<close>

definition load_special_cases :: "special_cases_data option \<Rightarrow> registry \<times> load_msg list" where
  "load_special_cases file =
     (case file of
        None \<Rightarrow> (empty_registry, [])
      | Some scd \<Rightarrow>
          (let (ov, m1) = fold add_override (override_translation scd) ([], []);
               (tr, m2) = fold add_transform (transform_translation scd) ([], m1);
               (nt, m3) = fold add_no_translation (no_translation scd) ({}, m2);
               (sc, m4) = fold add_special_case (other_keys scd) ([], m3)
           in (\<lparr>special_cases = sc, global_add_translations = add_translation scd,
                 global_no_translation_ids = nt, global_override_translations = ov,
                 global_transform_translations = tr, add_block_data = add_block scd\<rparr>, m4)))"

section \<open>The dictionaries and the term index\<close>

text \<open>The five dictionaries; \<open>base_translations\<close> is the generic one, which the source
  names \<^verbatim>\<open>translations\<close>.\<close>

record dictionaries =
  base_translations :: "(string, string) dict"
  type_translations :: "(string, string) dict"
  move_translations :: "(string, string) dict"
  ability_translations :: "(string, string) dict"
  item_translations :: "(string, string) dict"

definition empty_dictionaries :: dictionaries where
  "empty_dictionaries =
     \<lparr>base_translations = [], type_translations = [], move_translations = [],
      ability_translations = [], item_translations = []\<rparr>"

definition endswith :: "string \<Rightarrow> string \<Rightarrow> bool" where
  "endswith s suf = suffix suf s"

text \<open>One file of the translations directory: its name and its parsed content, \<open>None\<close>
  when it cannot be read or parsed (the file is skipped). The content maps terms to
  translations, as the dictionary files do.\<close>

definition load_translation_file ::
  "string \<times> (string, string) dict option \<Rightarrow> dictionaries \<Rightarrow> dictionaries" where
  "load_translation_file = (\<lambda>(filename, parsed) ds.
     if \<not> endswith filename ''.json'' then ds
     else (case parsed of
        None \<Rightarrow> ds
      | Some data \<Rightarrow>
          if prefix ''type-'' filename
            then ds\<lparr>type_translations := dict_update (type_translations ds) data\<rparr>
          else if prefix ''move-'' filename
            then ds\<lparr>move_translations := dict_update (move_translations ds) data\<rparr>
          else if prefix ''ability-'' filename
            then ds\<lparr>ability_translations := dict_update (ability_translations ds) data\<rparr>
          else if prefix ''item-'' filename
            then ds\<lparr>item_translations := dict_update (item_translations ds) data\<rparr>
          else ds\<lparr>base_translations := dict_update (base_translations ds) data\<rparr>))"

definition load_translations ::
  "(string \<times> (string, string) dict option) list \<Rightarrow> (string, string) dict \<Rightarrow> dictionaries" where
  "load_translations files global_add =
     (let ds = fold load_translation_file files empty_dictionaries
      in if global_add \<noteq> [] then ds\<lparr>base_translations := dict_update (base_translations ds) global_add\<rparr>
         else ds)"

text \<open>\<^verbatim>\<open>not any([translations, type_translations, ...])\<close>\<close>

definition dictionaries_empty :: "dictionaries \<Rightarrow> bool" where
  "dictionaries_empty ds =
     (base_translations ds = [] \<and> type_translations ds = [] \<and> move_translations ds = []
      \<and> ability_translations ds = [] \<and> item_translations ds = [])"

text \<open>The elements of \<^verbatim>\<open>all_terms\<close> in the order the five \<^verbatim>\<open>update\<close> calls meet them
  first.\<close>

definition first_occurrences :: "'a list \<Rightarrow> 'a list" where
  "first_occurrences xs = rev (remdups (rev xs))"

definition all_terms :: "dictionaries \<Rightarrow> string list" where
  "all_terms ds =
     first_occurrences
       (keys (base_translations ds) @ keys (type_translations ds) @ keys (move_translations ds)
        @ keys (ability_translations ds) @ keys (item_translations ds))"

text \<open>
  \<^verbatim>\<open>sorted_terms = sorted(all_terms, key=len, reverse=True)\<close>. \<^verbatim>\<open>all_terms\<close> is a Python set:
  \<^verbatim>\<open>sorted\<close> reads it in the set's iteration order, which follows the hashes of the strings
  and not the order of insertion. That order belongs to the interpreter, so it is a
  parameter \<open>set_iter\<close> here: from the elements in insertion order to the order the set is
  iterated in. \<^verbatim>\<open>sorted\<close> is stable, also with \<^verbatim>\<open>reverse=True\<close>.
\<close>

definition sorted_terms :: "(string list \<Rightarrow> string list) \<Rightarrow> dictionaries \<Rightarrow> string list" where
  "sorted_terms set_iter ds = sort_key (\<lambda>t. - int (length t)) (set_iter (all_terms ds))"

section \<open>Errors\<close>

text \<open>
  The exceptions the per-record code can raise. Only \<^verbatim>\<open>KeyError\<close> from the template is
  caught; the others leave \<^verbatim>\<open>process_single_file\<close>. \<open>ReplTemplate\<close> stands for a
  replacement string that holds a backslash: \<^verbatim>\<open>Pattern.sub\<close> reads such a string as a
  template with escapes and group references, which this model does not interpret.
  \<open>FormatSpec\<close> stands likewise for a replacement field with an attribute, an index, a
  conversion or a format specification. These two results mark inputs outside the model:
  nothing is stated about what the program does with them.
\<close>

datatype error =
    KeyError string
  | IndexError
  | ValueError
  | AttributeError
  | ReError
  | ReplTemplate
  | FormatSpec

section \<open>The patterns compiled from the term index\<close>

definition backslash :: char where
  "backslash = CHR 0x5C"

definition dquote :: char where
  "dquote = CHR 0x22"

definition punctuation :: string where
  "punctuation = ''.!?,:;''"

text \<open>A compiled pattern \<^verbatim>\<open>\b\<close> + \<^verbatim>\<open>re.escape(term)\<close> + \<^verbatim>\<open>\b\<close>: the literal, which of the
  two boundary assertions it has, and whether it is compiled with \<^verbatim>\<open>re.IGNORECASE\<close>.\<close>

record term_pattern =
  lead_boundary :: bool
  trail_boundary :: bool
  ignore_case :: bool
  literal :: string

text \<open>\<^verbatim>\<open>english_term[-1]\<close> raises IndexError on the empty string.\<close>

definition compile_term :: "string \<Rightarrow> error + term_pattern \<times> string" where
  "compile_term english_term =
     (if english_term = [] then Inl IndexError
      else if last english_term \<in> set punctuation then
        Inr (\<lparr>lead_boundary = True, trail_boundary = False, ignore_case = True,
              literal = english_term\<rparr>, english_term)
      else if hd english_term \<in> set punctuation then
        Inr (\<lparr>lead_boundary = False, trail_boundary = True, ignore_case = True,
              literal = english_term\<rparr>, english_term)
      else
        Inr (\<lparr>lead_boundary = True, trail_boundary = True, ignore_case = True,
              literal = english_term\<rparr>, english_term))"

fun compile_patterns :: "string list \<Rightarrow> error + (term_pattern \<times> string) list" where
  "compile_patterns [] = Inr []"
| "compile_patterns (t # ts) =
     (case compile_term t of
        Inl e \<Rightarrow> Inl e
      | Inr p \<Rightarrow> (case compile_patterns ts of Inl e \<Rightarrow> Inl e | Inr ps \<Rightarrow> Inr (p # ps)))"

text \<open>\<^verbatim>\<open>\w\<close> on ASCII.\<close>

definition is_word :: "char \<Rightarrow> bool" where
  "is_word c = (c \<in> set (upper_letters @ lower_letters @ digits @ ''_''))"

definition word_at :: "char option \<Rightarrow> bool" where
  "word_at x = (case x of None \<Rightarrow> False | Some c \<Rightarrow> is_word c)"

text \<open>\<^verbatim>\<open>\b\<close> holds between two positions when exactly one side is a word character; the
  outside of the string counts as not a word character.\<close>

definition boundary :: "char option \<Rightarrow> char option \<Rightarrow> bool" where
  "boundary prev after = (word_at prev \<noteq> word_at after)"

definition head_opt :: "string \<Rightarrow> char option" where
  "head_opt s = (case s of [] \<Rightarrow> None | c # _ \<Rightarrow> Some c)"

definition chars_match :: "bool \<Rightarrow> char \<Rightarrow> char \<Rightarrow> bool" where
  "chars_match ic a b = (if ic then lower_char a = lower_char b else a = b)"

text \<open>Whether the pattern matches at the start of \<open>rest\<close>, the character before it being
  \<open>prev\<close>.\<close>

definition match_here :: "term_pattern \<Rightarrow> char option \<Rightarrow> string \<Rightarrow> bool" where
  "match_here p prev rest =
     (let n = length (literal p); m = take n rest in
      n \<le> length rest
      \<and> list_all2 (chars_match (ignore_case p)) (literal p) m
      \<and> (if lead_boundary p then boundary prev (head_opt rest) else True)
      \<and> (if trail_boundary p
          then boundary (if m = [] then prev else Some (last m)) (head_opt (drop n rest))
          else True))"

text \<open>\<^verbatim>\<open>pattern.search(text)\<close> as a truth value.\<close>

fun search_from :: "term_pattern \<Rightarrow> char option \<Rightarrow> string \<Rightarrow> bool" where
  "search_from p prev [] = match_here p prev []"
| "search_from p prev (c # cs) = (match_here p prev (c # cs) \<or> search_from p (Some c) cs)"

definition re_search_term :: "term_pattern \<Rightarrow> string \<Rightarrow> bool" where
  "re_search_term p s = search_from p None s"

text \<open>\<^verbatim>\<open>pattern.sub(repl, text)\<close> for a replacement without backslash: the matches are
  replaced from left to right without overlap. \<open>k\<close> counts the characters of the current
  match that are still to be skipped.\<close>

fun sub_from :: "term_pattern \<Rightarrow> string \<Rightarrow> nat \<Rightarrow> char option \<Rightarrow> string \<Rightarrow> string" where
  "sub_from p repl k prev [] = (if k = 0 \<and> match_here p prev [] then repl else [])"
| "sub_from p repl k prev (c # cs) =
     (if 0 < k then sub_from p repl (k - 1) (Some c) cs
      else if match_here p prev (c # cs) then
        (if literal p = [] then repl @ c # sub_from p repl 0 (Some c) cs
         else repl @ sub_from p repl (length (literal p) - 1) (Some c) cs)
      else c # sub_from p repl 0 (Some c) cs)"

definition re_sub_term :: "term_pattern \<Rightarrow> string \<Rightarrow> string \<Rightarrow> error + string" where
  "re_sub_term p repl s =
     (if backslash \<in> set repl then Inl ReplTemplate else Inr (sub_from p repl 0 None s))"

section \<open>The contextual translation\<close>

definition description_phrases :: "string list" where
  "description_phrases =
     [''hello'', ''hi '', ''thank you'', ''would you like'', ''do you want'',
      ''i am'', ''i can'', ''it is'', ''the user'', ''the target'', ''this move'',
      ''you have'', ''sorry'', ''congratulations'', ''welcome'']"

definition type_indicators :: "string list" where
  "type_indicators =
     [''incense'', ''plate'', ''berry'', ''gem'', ''type'', ''resistance'', ''weakness'',
      ''power'', ''boost'', ''stone'', ''charm'']"

definition move_indicators :: "string list" where
  "move_indicators =
     [''learns'', ''teach'', ''tutor'', ''tm'', ''level up'', ''move'', ''attack'', ''skill'']"

definition ability_indicators :: "string list" where
  "ability_indicators = [''ability'', ''abilities'', ''hidden'', ''effect'', ''activates'']"

definition is_description :: "string \<Rightarrow> bool" where
  "is_description context_text =
     (50 < length context_text \<or> list_ex (contains (lower context_text)) description_phrases)"

text \<open>\<^verbatim>\<open>re.search(r'\(([^)]+)\)', text)\<close>: group 1 of the leftmost match. The state is the
  content read since an opening parenthesis, if one is open.\<close>

fun paren_search :: "string option \<Rightarrow> string \<Rightarrow> string option" where
  "paren_search opened [] = None"
| "paren_search None (c # cs) =
     (if c = CHR ''('' then paren_search (Some []) cs else paren_search None cs)"
| "paren_search (Some buf) (c # cs) =
     (if c = CHR '')'' then (if buf = [] then paren_search None cs else Some buf)
      else paren_search (Some (buf @ [c])) cs)"

definition get_contextual_translation ::
  "dictionaries \<Rightarrow> string \<Rightarrow> string \<Rightarrow> string option" where
  "get_contextual_translation ds english_term context_text =
     (let context_lower = lower context_text in
      if is_description context_text \<and> length (split_words english_term) = 1 then None
      else if CHR ''('' \<in> set context_text \<and> CHR '')'' \<in> set context_text
              \<and> paren_search None context_text = Some english_term
              \<and> has_key (type_translations ds) english_term
        then map_of (type_translations ds) english_term
      else if has_key (item_translations ds) english_term
        then map_of (item_translations ds) english_term
      else if has_key (move_translations ds) english_term
        then map_of (move_translations ds) english_term
      else if has_key (ability_translations ds) english_term
        then map_of (ability_translations ds) english_term
      else if list_ex (contains context_lower) type_indicators
              \<and> has_key (type_translations ds) english_term
        then map_of (type_translations ds) english_term
      else if \<not> is_description context_text \<and> list_ex (contains context_lower) move_indicators
              \<and> has_key (move_translations ds) english_term
        then map_of (move_translations ds) english_term
      else if list_ex (contains context_lower) ability_indicators
              \<and> has_key (ability_translations ds) english_term
        then map_of (ability_translations ds) english_term
      else if length (split_words context_text) \<le> 3 \<or> english_term = context_text
        then map_of (base_translations ds) english_term
      else None)"

text \<open>Python's truth value of an optional string: neither \<^verbatim>\<open>None\<close> nor empty.\<close>

definition truthy :: "string option \<Rightarrow> bool" where
  "truthy x = (case x of None \<Rightarrow> False | Some s \<Rightarrow> s \<noteq> [])"

text \<open>\<^verbatim>\<open>re.sub(r'\(([^)]+)\)', translate_parentheses_content, text)\<close>: every match is
  replaced by the type translation of its content in parentheses when the type dictionary
  has the content, and kept otherwise. The replacement is computed by a function, so it is
  inserted as it is.\<close>

fun paren_sub :: "(string, string) dict \<Rightarrow> string option \<Rightarrow> string \<Rightarrow> string" where
  "paren_sub ty None [] = []"
| "paren_sub ty (Some buf) [] = CHR ''('' # buf"
| "paren_sub ty None (c # cs) =
     (if c = CHR ''('' then paren_sub ty (Some []) cs else c # paren_sub ty None cs)"
| "paren_sub ty (Some buf) (c # cs) =
     (if c = CHR '')'' then
        (if buf = [] then ''()'' @ paren_sub ty None cs
         else (case map_of ty buf of
                 Some v \<Rightarrow> ''('' @ v @ '')''
               | None \<Rightarrow> ''('' @ buf @ '')'') @ paren_sub ty None cs)
      else paren_sub ty (Some (buf @ [c])) cs)"

section \<open>Filling a transform template\<close>

text \<open>
  \<^verbatim>\<open>template.format(**template_vars)\<close> for templates whose replacement fields are plain
  names. \<^verbatim>\<open>{{\<close> and \<^verbatim>\<open>}}\<close> are literal braces; a single brace that opens no field or
  closes none raises ValueError; an empty or numeric field name asks for a positional
  argument, of which there is none (IndexError); a name that is not among the variables
  raises KeyError. The string is read from left to right and the first error wins.
\<close>

datatype fmt_state = Literal | Opened | Closed | Field string

definition lookup_field :: "(string, string) dict \<Rightarrow> string \<Rightarrow> error + string" where
  "lookup_field vars name =
     (if list_ex (\<lambda>c. c \<in> set ''.[!:{'') name then Inl FormatSpec
      else if isdigit name then Inl IndexError
      else (case map_of vars name of None \<Rightarrow> Inl (KeyError name) | Some v \<Rightarrow> Inr v))"

definition emit :: "string \<Rightarrow> error + string \<Rightarrow> error + string" where
  "emit s r = (case r of Inl e \<Rightarrow> Inl e | Inr t \<Rightarrow> Inr (s @ t))"

fun fill :: "(string, string) dict \<Rightarrow> fmt_state \<Rightarrow> string \<Rightarrow> error + string" where
  "fill vars Literal [] = Inr []"
| "fill vars Opened [] = Inl ValueError"
| "fill vars Closed [] = Inl ValueError"
| "fill vars (Field name) [] = Inl ValueError"
| "fill vars Literal (c # cs) =
     (if c = CHR ''{'' then fill vars Opened cs
      else if c = CHR ''}'' then fill vars Closed cs
      else emit [c] (fill vars Literal cs))"
| "fill vars Opened (c # cs) =
     (if c = CHR ''{'' then emit ''{'' (fill vars Literal cs)
      else if c = CHR ''}'' then Inl IndexError
      else fill vars (Field [c]) cs)"
| "fill vars Closed (c # cs) =
     (if c = CHR ''}'' then emit ''}'' (fill vars Literal cs) else Inl ValueError)"
| "fill vars (Field name) (c # cs) =
     (if c = CHR ''}'' then
        (case lookup_field vars name of
           Inl e \<Rightarrow> Inl e
         | Inr v \<Rightarrow> emit v (fill vars Literal cs))
      else fill vars (Field (name @ [c])) cs)"

definition format_template :: "string \<Rightarrow> (string, string) dict \<Rightarrow> error + string" where
  "format_template tpl vars = fill vars Literal tpl"

section \<open>The per-record cascade\<close>

text \<open>A match of \<^verbatim>\<open>string_pattern\<close>: groups 1 to 4. The groups are adjacent, so group 0 is
  their concatenation.\<close>

record rmatch =
  opening_tag :: string
  string_id :: string
  body :: string
  closing_tag :: string

definition group0 :: "rmatch \<Rightarrow> string" where
  "group0 m = opening_tag m @ body m @ closing_tag m"

text \<open>What \<^verbatim>\<open>replace_content\<close> prints, by tag: the record id and the texts.\<close>

datatype event =
    GlobalOverride string string string
  | NoTranslation string
  | GlobalTransform string string string
  | TemplateError string string
  | Skip string
  | AddTrans string string string
  | Translated string string
  | NotTranslated string
  | BlockAdded string
  | ClosingTagNotFound string

text \<open>The counters that \<^verbatim>\<open>replace_content\<close> updates in the enclosing scope, and the
  lines printed so far.\<close>

record run_state =
  current :: nat
  translated_count :: nat
  not_translated_count :: nat
  special_cases_applied :: nat
  events :: "event list"

definition initial_state :: run_state where
  "initial_state =
     \<lparr>current = 0, translated_count = 0, not_translated_count = 0,
      special_cases_applied = 0, events = []\<rparr>"

text \<open>
  The regular expressions of a transform entry come from the special-cases file, so
  \<^verbatim>\<open>re.search(regex_pattern, original_text)\<close> is a parameter: it answers that the pattern
  does not compile (\<^verbatim>\<open>re.error\<close>), that nothing matches, or the matched text
  (\<^verbatim>\<open>group(0)\<close>) with the captured groups (\<^verbatim>\<open>groups()\<close>, \<open>None\<close> for a group that took
  no part in the match).
\<close>

datatype re_outcome = ReInvalid | NoMatch | Matched string "string option list"

type_synonym re_engine = "string \<Rightarrow> string \<Rightarrow> re_outcome"

definition group_vars :: "string option list \<Rightarrow> (string, string) dict" where
  "group_vars groups =
     map (\<lambda>(i, g). (''group'' @ str_nat i, case g of None \<Rightarrow> [] | Some t \<Rightarrow> t))
       (zip [1..<length groups + 1] groups)"

text \<open>The value of the template variable \<^verbatim>\<open>translated\<close>. When group 1 took no part in the
  match the main term is \<^verbatim>\<open>None\<close>: \<^verbatim>\<open>get_contextual_translation\<close> then calls
  \<^verbatim>\<open>None.split()\<close> on a description (AttributeError) and finds nothing otherwise, and the
  template prints \<^verbatim>\<open>None\<close>.\<close>

definition main_translation ::
  "registry \<Rightarrow> dictionaries \<Rightarrow> string option \<Rightarrow> string \<Rightarrow> error + string" where
  "main_translation reg ds main_term original_text =
     (case main_term of
        None \<Rightarrow> if is_description original_text then Inl AttributeError else Inr ''None''
      | Some t \<Rightarrow>
          (let translated_term =
                 (if has_key (global_add_translations reg) t
                  then map_of (global_add_translations reg) t
                  else get_contextual_translation ds t original_text)
           in Inr (case translated_term of
                     None \<Rightarrow> t
                   | Some v \<Rightarrow> if v \<noteq> [] then v else t)))"

text \<open>The loop over the patterns of a transform entry. The result is the text to emit, or
  \<open>None\<close> when the loop ends without a return.\<close>

fun try_patterns ::
  "re_engine \<Rightarrow> registry \<Rightarrow> dictionaries \<Rightarrow> string \<Rightarrow> string \<Rightarrow> run_state
     \<Rightarrow> pattern_config list \<Rightarrow> error + string option \<times> run_state" where
  "try_patterns search reg ds sid original_text st [] = Inr (None, st)"
| "try_patterns search reg ds sid original_text st (pc # pcs) =
     (if regex pc = [] \<or> template pc = [] then
        try_patterns search reg ds sid original_text st pcs
      else
        (case search (regex pc) original_text of
           ReInvalid \<Rightarrow> Inl ReError
         | NoMatch \<Rightarrow> try_patterns search reg ds sid original_text st pcs
         | Matched whole groups \<Rightarrow>
             (let main_term = (case groups of [] \<Rightarrow> Some original_text | g # _ \<Rightarrow> g) in
              case main_translation reg ds main_term original_text of
                Inl e \<Rightarrow> Inl e
              | Inr translated \<Rightarrow>
                  (let template_vars =
                         [(''original'', original_text), (''match'', whole)]
                         @ group_vars groups @ [(''translated'', translated)]
                   in case format_template (template pc) template_vars of
                        Inr result \<Rightarrow>
                          Inr (Some result,
                               st\<lparr>translated_count := translated_count st + 1,
                                  events := events st @ [GlobalTransform sid original_text result]\<rparr>)
                      | Inl (KeyError v) \<Rightarrow>
                          Inr (None, st\<lparr>events := events st @ [TemplateError sid v]\<rparr>)
                      | Inl e \<Rightarrow> Inl e))))"

definition transform_step ::
  "re_engine \<Rightarrow> registry \<Rightarrow> dictionaries \<Rightarrow> string \<Rightarrow> string \<Rightarrow> run_state
     \<Rightarrow> error + string option \<times> run_state" where
  "transform_step search reg ds sid original_text st =
     (case map_of (global_transform_translations reg) sid of
        None \<Rightarrow> Inr (None, st)
      | Some transform_data \<Rightarrow>
          if patterns transform_data = [] then Inr (None, st)
          else try_patterns search reg ds sid original_text
                 (st\<lparr>special_cases_applied := special_cases_applied st + 1\<rparr>)
                 (patterns transform_data))"

text \<open>The temporary translations of a legacy \<^verbatim>\<open>add_translation\<close> case: each term is
  compiled between two \<^verbatim>\<open>\b\<close>, case-sensitive, and substituted where it is found.\<close>

fun apply_temp_translations :: "(string, string) dict \<Rightarrow> string \<Rightarrow> error + string" where
  "apply_temp_translations [] working_text = Inr working_text"
| "apply_temp_translations ((english_term, temp_translation) # rest) working_text =
     (let pattern_temp = \<lparr>lead_boundary = True, trail_boundary = True, ignore_case = False,
                           literal = english_term\<rparr>
      in if re_search_term pattern_temp working_text then
           (case re_sub_term pattern_temp temp_translation working_text of
              Inl e \<Rightarrow> Inl e
            | Inr w \<Rightarrow> apply_temp_translations rest w)
         else apply_temp_translations rest working_text)"

definition special_case_step ::
  "registry \<Rightarrow> rmatch \<Rightarrow> string \<Rightarrow> run_state \<Rightarrow> error + string option \<times> run_state" where
  "special_case_step reg m original_text st =
     (case map_of (special_cases reg) (string_id m) of
        None \<Rightarrow> Inr (None, st)
      | Some c \<Rightarrow>
          if case_type c = Some ''no_translation'' then
            Inr (Some (group0 m),
                 st\<lparr>not_translated_count := not_translated_count st + 1,
                    special_cases_applied := special_cases_applied st + 1,
                    events := events st @ [Skip (string_id m)]\<rparr>)
          else if case_type c = Some ''add_translation'' \<and> case_translations c \<noteq> [] then
            (case apply_temp_translations (case_translations c) original_text of
               Inl e \<Rightarrow> Inl e
             | Inr working_text \<Rightarrow>
                 (let st1 = st\<lparr>special_cases_applied := special_cases_applied st + 1\<rparr> in
                  if working_text \<noteq> original_text then
                    Inr (Some (opening_tag m @ working_text @ closing_tag m),
                         st1\<lparr>translated_count := translated_count st1 + 1,
                             events := events st1
                               @ [AddTrans (string_id m) original_text working_text]\<rparr>)
                  else Inr (None, st1)))
          else Inr (None, st))"

text \<open>The loop over the compiled patterns: a term found in the working text is replaced by
  its contextual translation, the context being the original text.\<close>

fun partial_translation ::
  "dictionaries \<Rightarrow> string \<Rightarrow> (term_pattern \<times> string) list \<Rightarrow> string \<Rightarrow> error + string" where
  "partial_translation ds original_text [] working_text = Inr working_text"
| "partial_translation ds original_text ((compiled_pattern, english_term) # rest) working_text =
     (if re_search_term compiled_pattern working_text then
        (case get_contextual_translation ds english_term original_text of
           None \<Rightarrow> partial_translation ds original_text rest working_text
         | Some context_translation \<Rightarrow>
             if context_translation = [] then
               partial_translation ds original_text rest working_text
             else
               (case re_sub_term compiled_pattern context_translation working_text of
                  Inl e \<Rightarrow> Inl e
                | Inr w \<Rightarrow> partial_translation ds original_text rest w))
      else partial_translation ds original_text rest working_text)"

text \<open>\<^verbatim>\<open>translated_text\<close> before the check of the parentheses.\<close>

definition normal_translation ::
  "dictionaries \<Rightarrow> (term_pattern \<times> string) list \<Rightarrow> string \<Rightarrow> error + string option" where
  "normal_translation ds compiled_patterns original_text =
     (let contextual_translation = get_contextual_translation ds original_text original_text in
      if truthy contextual_translation then Inr contextual_translation
      else
        (case partial_translation ds original_text compiled_patterns original_text of
           Inl e \<Rightarrow> Inl e
         | Inr working_text \<Rightarrow>
             Inr (if working_text \<noteq> original_text then Some working_text else None)))"

definition translate_parentheses :: "dictionaries \<Rightarrow> string option \<Rightarrow> string option" where
  "translate_parentheses ds translated_text =
     (case translated_text of
        None \<Rightarrow> None
      | Some t \<Rightarrow>
          if t \<noteq> [] \<and> CHR ''('' \<in> set t \<and> CHR '')'' \<in> set t
          then Some (paren_sub (type_translations ds) None t)
          else Some t)"

definition default_step ::
  "dictionaries \<Rightarrow> (term_pattern \<times> string) list \<Rightarrow> rmatch \<Rightarrow> string \<Rightarrow> run_state
     \<Rightarrow> error + string \<times> run_state" where
  "default_step ds compiled_patterns m original_text st =
     (case normal_translation ds compiled_patterns original_text of
        Inl e \<Rightarrow> Inl e
      | Inr t0 \<Rightarrow>
          (case translate_parentheses ds t0 of
             None \<Rightarrow>
               Inr (group0 m,
                    st\<lparr>not_translated_count := not_translated_count st + 1,
                       events := events st @ [NotTranslated original_text]\<rparr>)
           | Some translated_text \<Rightarrow>
               if translated_text \<noteq> [] then
                 Inr (opening_tag m @ translated_text @ closing_tag m,
                      st\<lparr>translated_count := translated_count st + 1,
                         events := events st @ [Translated original_text translated_text]\<rparr>)
               else
                 Inr (group0 m,
                      st\<lparr>not_translated_count := not_translated_count st + 1,
                         events := events st @ [NotTranslated original_text]\<rparr>)))"

text \<open>\<^verbatim>\<open>replace_content(match)\<close>: the text that replaces the record, and the counters.
  The percentage is computed for the printed line only and is left out.\<close>

definition replace_content ::
  "re_engine \<Rightarrow> registry \<Rightarrow> dictionaries \<Rightarrow> (term_pattern \<times> string) list \<Rightarrow> run_state
     \<Rightarrow> rmatch \<Rightarrow> error + string \<times> run_state" where
  "replace_content search reg ds compiled_patterns st0 m =
     (let st = st0\<lparr>current := current st0 + 1\<rparr>;
          original_text = strip (body m)
      in
      if original_text = [] then Inr (group0 m, st)
      else
        (case map_of (global_override_translations reg) (string_id m) of
           Some override_data \<Rightarrow>
             Inr (opening_tag m @ translation override_data @ closing_tag m,
                  st\<lparr>translated_count := translated_count st + 1,
                     special_cases_applied := special_cases_applied st + 1,
                     events := events st
                       @ [GlobalOverride (string_id m) original_text
                            (translation override_data)]\<rparr>)
         | None \<Rightarrow>
             if string_id m \<in> global_no_translation_ids reg then
               Inr (group0 m,
                    st\<lparr>not_translated_count := not_translated_count st + 1,
                       special_cases_applied := special_cases_applied st + 1,
                       events := events st @ [NoTranslation (string_id m)]\<rparr>)
             else
               (case transform_step search reg ds (string_id m) original_text st of
                  Inl e \<Rightarrow> Inl e
                | Inr (Some result, st1) \<Rightarrow>
                    Inr (opening_tag m @ result @ closing_tag m, st1)
                | Inr (None, st1) \<Rightarrow>
                    (case special_case_step reg m original_text st1 of
                       Inl e \<Rightarrow> Inl e
                     | Inr (Some out, st2) \<Rightarrow> Inr (out, st2)
                     | Inr (None, st2) \<Rightarrow>
                         default_step ds compiled_patterns m original_text st2))))"

section \<open>Scanning the document\<close>

text \<open>\<open>split_first sub acc s\<close> cuts \<open>s\<close> at the first occurrence of \<open>sub\<close>: the text read
  before it (after \<open>acc\<close>) and the text after it.\<close>

fun split_first :: "string \<Rightarrow> string \<Rightarrow> string \<Rightarrow> (string \<times> string) option" where
  "split_first sub acc [] = (if sub = [] then Some (acc, []) else None)"
| "split_first sub acc (c # cs) =
     (if prefix sub (c # cs) then Some (acc, drop (length sub) (c # cs))
      else split_first sub (acc @ [c]) cs)"

text \<open>
  A match of \<^verbatim>\<open>(<string\s+id="([^"]+)"[^>]*>)(.*?)(</string>)\<close> with \<^verbatim>\<open>re.DOTALL\<close> at the
  start of \<open>s\<close>. Every repetition of the pattern is followed by a character outside its
  class, so the pattern can match in one way only: all the whitespace, the id up to the
  next quote, the attributes up to the next \<^verbatim>\<open>>\<close>, and the text up to the first
  \<^verbatim>\<open></string>\<close>.
\<close>

definition match_record :: "string \<Rightarrow> rmatch option" where
  "match_record s =
     (if \<not> prefix ''<string'' s then None
      else
        (let r1 = drop 7 s;
             ws = takeWhile is_space r1;
             r2 = dropWhile is_space r1
         in if ws = [] \<or> \<not> prefix (''id='' @ [dquote]) r2 then None
            else
              (let r3 = drop 4 r2;
                   sid = takeWhile (\<lambda>c. c \<noteq> dquote) r3;
                   r4 = dropWhile (\<lambda>c. c \<noteq> dquote) r3
               in if sid = [] \<or> r4 = [] then None
                  else
                    (let r5 = tl r4;
                         attrs = takeWhile (\<lambda>c. c \<noteq> CHR ''>'') r5;
                         r6 = dropWhile (\<lambda>c. c \<noteq> CHR ''>'') r5
                     in if r6 = [] then None
                        else
                          (case split_first ''</string>'' [] (tl r6) of
                             None \<Rightarrow> None
                           | Some (text, rest) \<Rightarrow>
                               Some \<lparr>opening_tag =
                                       ''<string'' @ ws @ ''id='' @ [dquote] @ sid @ [dquote]
                                       @ attrs @ ''>'',
                                     string_id = sid, body = text,
                                     closing_tag = ''</string>''\<rparr>)))))"

datatype segment = Plain char | Record rmatch

text \<open>The document as \<^verbatim>\<open>re.sub\<close> sees it: the matches from left to right without overlap,
  and the characters between them. \<open>k\<close> counts the characters of the current match that
  are still to be skipped.\<close>

fun scan :: "nat \<Rightarrow> string \<Rightarrow> segment list" where
  "scan k [] = []"
| "scan k (c # cs) =
     (if 0 < k then scan (k - 1) cs
      else (case match_record (c # cs) of
              Some m \<Rightarrow> Record m # scan (length (group0 m) - 1) cs
            | None \<Rightarrow> Plain c # scan 0 cs))"

text \<open>\<^verbatim>\<open>re.sub(string_pattern, replace_content, xml_content, flags=re.DOTALL)\<close>\<close>

fun replace_segments ::
  "re_engine \<Rightarrow> registry \<Rightarrow> dictionaries \<Rightarrow> (term_pattern \<times> string) list \<Rightarrow> run_state
     \<Rightarrow> segment list \<Rightarrow> error + string \<times> run_state" where
  "replace_segments search reg ds cps st [] = Inr ([], st)"
| "replace_segments search reg ds cps st (Plain c # segs) =
     (case replace_segments search reg ds cps st segs of
        Inl e \<Rightarrow> Inl e
      | Inr (out, st') \<Rightarrow> Inr (c # out, st'))"
| "replace_segments search reg ds cps st (Record m # segs) =
     (case replace_content search reg ds cps st m of
        Inl e \<Rightarrow> Inl e
      | Inr (r, st1) \<Rightarrow>
          (case replace_segments search reg ds cps st1 segs of
             Inl e \<Rightarrow> Inl e
           | Inr (out, st') \<Rightarrow> Inr (r @ out, st')))"

definition translate_document ::
  "re_engine \<Rightarrow> registry \<Rightarrow> dictionaries \<Rightarrow> (term_pattern \<times> string) list \<Rightarrow> string
     \<Rightarrow> error + string \<times> run_state" where
  "translate_document search reg ds cps xml_content =
     replace_segments search reg ds cps initial_state (scan 0 xml_content)"

section \<open>Adding the blocks\<close>

text \<open>\<^verbatim>\<open>s.rfind(sub)\<close>: the highest index where \<open>sub\<close> starts, \<open>None\<close> for \<^verbatim>\<open>-1\<close>.\<close>

definition rfind :: "string \<Rightarrow> string \<Rightarrow> nat option" where
  "rfind s sub = find (\<lambda>i. prefix sub (drop i s)) (rev [0..<length s + 1])"

text \<open>\<^verbatim>\<open>input_file.replace("\\", "/")\<close>\<close>

definition normalize_path :: "string \<Rightarrow> string" where
  "normalize_path path = map (\<lambda>c. if c = backslash then CHR ''/'' else c) path"

text \<open>One turn of the loop over \<^verbatim>\<open>add_block_data.items()\<close>.\<close>

definition apply_add_block ::
  "string \<Rightarrow> string \<times> block_info \<Rightarrow> string \<times> run_state \<Rightarrow> string \<times> run_state" where
  "apply_add_block input_file = (\<lambda>(file_path, block) (xml_content, st).
     if file_path = normalize_path input_file then
       (let content_to_add = content block in
        if content_to_add \<noteq> [] then
          (case rfind xml_content ''</'' of
             Some last_close_tag_pos \<Rightarrow>
               (take last_close_tag_pos xml_content @ content_to_add @ [CHR 0x0A]
                  @ drop last_close_tag_pos xml_content,
                st\<lparr>events := events st @ [BlockAdded file_path]\<rparr>)
           | None \<Rightarrow> (xml_content, st\<lparr>events := events st @ [ClosingTagNotFound file_path]\<rparr>))
        else (xml_content, st))
     else (xml_content, st))"

definition apply_add_blocks ::
  "string \<Rightarrow> (string, block_info) dict \<Rightarrow> string \<times> run_state \<Rightarrow> string \<times> run_state" where
  "apply_add_blocks input_file blocks out = fold (apply_add_block input_file) blocks out"

section \<open>Processing one file\<close>

text \<open>The two services of the interpreter that the program relies on and that are not
  fixed by its text: the regular expressions of the special-cases file and the iteration
  order of a set of strings.\<close>

record python_env =
  re_search :: re_engine
  set_iter :: "string list \<Rightarrow> string list"

text \<open>
  \<^verbatim>\<open>process_single_file\<close> after the files are read: the document, the parsed special-cases
  file and the parsed files of the translations directory. The result is the text written
  to the output file with the final counters, \<open>None\<close> when the function returns before
  writing (no translations found), or the exception that leaves the function.
\<close>

definition process_single_file ::
  "python_env \<Rightarrow> string \<Rightarrow> string \<Rightarrow> special_cases_data option
     \<Rightarrow> (string \<times> (string, string) dict option) list
     \<Rightarrow> error + (string \<times> run_state) option" where
  "process_single_file env input_file xml_content special_cases_file translation_files =
     (let reg = fst (load_special_cases special_cases_file);
          ds = load_translations translation_files (global_add_translations reg)
      in if dictionaries_empty ds then Inr None
         else
           (case compile_patterns (sorted_terms (set_iter env) ds) of
              Inl e \<Rightarrow> Inl e
            | Inr compiled_patterns \<Rightarrow>
                (case translate_document (re_search env) reg ds compiled_patterns xml_content of
                   Inl e \<Rightarrow> Inl e
                 | Inr translated \<Rightarrow>
                     Inr (Some (apply_add_blocks input_file (add_block_data reg) translated)))))"

section \<open>Records and a regular expression engine for the examples\<close>

text \<open>The match of the record \<^verbatim>\<open><string id="sid">text</string>\<close>.\<close>

definition string_record :: "string \<Rightarrow> string \<Rightarrow> rmatch" where
  "string_record sid text =
     \<lparr>opening_tag = ''<string id='' @ [dquote] @ sid @ [dquote] @ ''>'', string_id = sid,
      body = text, closing_tag = ''</string>''\<rparr>"


text \<open>An engine for the examples. A pattern of letters and digits matches itself, so
  \<^verbatim>\<open>re.search\<close> finds it where it occurs and there are no groups; the examples use no
  other pattern, and the engine rejects them.\<close>

definition literal_search :: re_engine where
  "literal_search pat s =
     (if pat \<noteq> [] \<and> list_all is_word pat
      then (if contains s pat then Matched pat [] else NoMatch)
      else ReInvalid)"

text \<open>Special cases for the examples: a transform entry for the id 1 whose second
  pattern has a template with an unknown variable, and a block for the document
  \<^verbatim>\<open>lang/strings.xml\<close>.\<close>

definition no_special_cases :: special_cases_data where
  "no_special_cases =
     \<lparr>add_translation = [], add_block = [], override_translation = [],
      transform_translation = [], no_translation = [], other_keys = []\<rparr>"


definition block_cases :: special_cases_data where
  "block_cases =
     no_special_cases\<lparr>add_block :=
       [(''other.xml'', \<lparr>content = ''<!-- other -->'', block_reason = ''note''\<rparr>),
        (''lang/strings.xml'',
         \<lparr>content = group0 (string_record ''99'' ''Fire''), block_reason = ''extra''\<rparr>)]\<rparr>"

definition example_env :: python_env where
  "example_env = \<lparr>re_search = literal_search, set_iter = id\<rparr>"

section \<open>Decimal ids and ranges\<close>









lemma split_on_no_sep: "d \<notin> set s \<Longrightarrow> split_on d s = [s]"
  by (induction s) auto

lemma split_on_one_sep:
  "d \<notin> set s \<Longrightarrow> d \<notin> set t \<Longrightarrow> split_on d (s @ d # t) = [s, t]"
  by (induction s) (auto simp: split_on_no_sep)

lemma digits_no_dash: "list_all (\<lambda>c. c \<in> set digits) s \<Longrightarrow> CHR ''-'' \<notin> set s \<and> CHR ''.'' \<notin> set s"
  by (induction s) (auto simp: digits_def)

lemma remove_char_absent: "c \<notin> set s \<Longrightarrow> remove_char c s = s"
  by (induction s) (auto simp: remove_char_def)

lemma classify_range:
  assumes "isdigit sa" "isdigit sb"
  shows "classify_id (sa @ CHR ''-'' # sb) = RangeId (the (py_int sa)) (the (py_int sb))"
proof -
  from assms have da: "list_all (\<lambda>c. c \<in> set digits) sa" and db: "list_all (\<lambda>c. c \<in> set digits) sb"
    by (simp_all add: isdigit_def)
  have na: "CHR ''-'' \<notin> set sa" "CHR ''.'' \<notin> set sa" using digits_no_dash[OF da] by simp_all
  have nb: "CHR ''-'' \<notin> set sb" "CHR ''.'' \<notin> set sb" using digits_no_dash[OF db] by simp_all
  have r1: "remove_char CHR ''-'' (sa @ CHR ''-'' # sb) = sa @ sb"
    using remove_char_absent[OF na(1)] remove_char_absent[OF nb(1)] by (simp add: remove_char_def)
  have r2: "remove_char CHR ''.'' (sa @ sb) = sa @ sb"
    using na nb by (simp add: remove_char_absent)
  have d: "isdigit (sa @ sb)" using assms by (simp add: isdigit_def)
  have sp: "split_on CHR ''-'' (sa @ CHR ''-'' # sb) = [sa, sb]"
    using na nb by (simp add: split_on_one_sep)
  show ?thesis using assms by (simp add: classify_id_def r1 r2 d sp py_int_def)
qed

lemma classify_range_str:
  assumes "py_int sa = Some a" and "py_int sb = Some b"
  shows "classify_id (sa @ ''-'' @ sb) = RangeId a b"
proof -
  have "isdigit sa" "isdigit sb" using assms by (auto simp: py_int_def split: if_splits)
  from classify_range[OF this] assms show ?thesis by simp
qed






section \<open>Expansion of ranges\<close>



text \<open>
  Claim C10. A range id \<open>sa-sb\<close> whose parts are numbers with \<open>a > b\<close> passes the
  test for a range and both conversions, the loop over the empty range stores nothing, and
  the loader prints the line for an expanded range (with the count \<open>b - a + 1\<close>, which
  is not positive) and no parse error.
\<close>

theorem reversed_range_stores_nothing:
  assumes "py_int sa = Some a" and "py_int sb = Some b" and "b < a"
  shows "add_override \<lparr>oe_id = sa @ ''-'' @ sb, oe_translation = t, oe_reason = r\<rparr> (d, msgs)
           = (d, msgs @ [Expanded ''override_translation'' (sa @ ''-'' @ sb) (int b - int a + 1)])
    \<and> add_no_translation \<lparr>ne_id = sa @ ''-'' @ sb, ne_comment = cm\<rparr> (ids, msgs)
           = (ids, msgs @ [Expanded ''no_translation'' (sa @ ''-'' @ sb) (int b - int a + 1)])
    \<and> add_transform \<lparr>te_id = sa @ ''-'' @ sb, te_patterns = ps, te_reason = r\<rparr> (d', msgs)
           = (d', msgs @ [Expanded ''transform_translation'' (sa @ ''-'' @ sb) (int b - int a + 1)])
    \<and> add_special_case (sa @ ''-'' @ sb, c) (d'', msgs)
           = (d'', msgs @ [Expanded ''special_cases'' (sa @ ''-'' @ sb) (int b - int a + 1)])
    \<and> int b - int a + 1 \<le> 0"
proof -
  have cl: "classify_id (sa @ ''-'' @ sb) = RangeId a b"
    using assms(1,2) by (rule classify_range_str)
  have cl': "classify_id (sa @ CHR ''-'' # sb) = RangeId a b" using cl by simp
  have e: "[a..<Suc b] = []" using assms(3) by simp
  show ?thesis using assms(3)
    by (simp add: add_override_def add_no_translation_def add_transform_def add_special_case_def
        cl' store_range_def e del: upt_Suc)
qed

theorem reversed_range_stores_nothing_witness:
  "py_int ''5'' = Some 5 \<and> py_int ''3'' = Some 3 \<and> (3::nat) < 5
   \<and> add_override \<lparr>oe_id = ''5-3'', oe_translation = ''Ciao'', oe_reason = ''greeting''\<rparr> ([], [])
       = ([], [Expanded ''override_translation'' ''5-3'' (- 1)])
   \<and> add_no_translation \<lparr>ne_id = ''5-3'', ne_comment = ''names''\<rparr> ({}, [])
       = ({}, [Expanded ''no_translation'' ''5-3'' (- 1)])"
proof -
  have h1: "py_int ''5'' = Some 5" and h2: "py_int ''3'' = Some 3"
    by (simp_all add: py_int_def isdigit_def digits_def digit_val_def)
  have h3: "(3::nat) < 5" by simp
  from reversed_range_stores_nothing[OF h1 h2 h3, where t = "''Ciao''" and r = "''greeting''"
      and d = "[]" and msgs = "[]" and cm = "''names''" and ids = "{}"]
  show ?thesis using h1 h2 by simp
qed

section \<open>Blank records\<close>

lemma strip_blank: "list_all is_space s \<Longrightarrow> strip s = []"
proof -
  assume a: "list_all is_space s"
  then have d: "dropWhile is_space s = []" by (induction s) auto
  show ?thesis unfolding strip_def d by simp
qed

lemma strip_empty_iff: "strip s = [] \<longleftrightarrow> list_all is_space s"
proof
  assume "strip s = []"
  then have "dropWhile is_space (rev (dropWhile is_space s)) = []" by (simp add: strip_def)
  then have a: "\<forall>x \<in> set (dropWhile is_space s). is_space x"
    using dropWhile_eq_Nil_conv[of is_space "rev (dropWhile is_space s)"] by simp
  have "dropWhile is_space s = []"
  proof (rule ccontr)
    assume n: "dropWhile is_space s \<noteq> []"
    then have "\<not> is_space (hd (dropWhile is_space s))" by (rule hd_dropWhile)
    moreover have "hd (dropWhile is_space s) \<in> set (dropWhile is_space s)" using n by simp
    ultimately show False using a by blast
  qed
  then show "list_all is_space s"
    using dropWhile_eq_Nil_conv[of is_space s] by (simp add: list_all_iff)
qed (rule strip_blank)



section \<open>Overrides and exemptions\<close>








section \<open>The contextual translation of a term\<close>

lemma psychic_facts:
  "is_description ''Psychic'' = False"
  "split_words ''Psychic'' = [''Psychic'']"
  "lower ''Psychic'' = ''psychic''"
  "list_ex (contains ''psychic'') type_indicators = False"
  "list_ex (contains ''psychic'') move_indicators = False"
  "list_ex (contains ''psychic'') ability_indicators = False"
  by code_simp+

lemma long_context_description:
  "is_description ''Hello! It is super effective because of Psychic energy and much more descriptive text exceeding fifty characters''"
  by code_simp

text \<open>
  Claim C4, amended. With the term and the context both \<^verbatim>\<open>Psychic\<close> the resolver returns
  the entry of the first of the item, move and ability dictionaries that has the key, and
  otherwise the entry of the generic dictionary (nothing when it has none): the context
  holds no parenthesis and no type indicator, so the type dictionary is not read. With the
  long context the resolver returns nothing, whatever the dictionaries hold.
\<close>

theorem psychic_resolution:
  "get_contextual_translation ds ''Psychic'' ''Psychic'' =
     (if has_key (item_translations ds) ''Psychic'' then map_of (item_translations ds) ''Psychic''
      else if has_key (move_translations ds) ''Psychic'' then map_of (move_translations ds) ''Psychic''
      else if has_key (ability_translations ds) ''Psychic''
        then map_of (ability_translations ds) ''Psychic''
      else map_of (base_translations ds) ''Psychic'')
   \<and> get_contextual_translation ds ''Psychic''
        ''Hello! It is super effective because of Psychic energy and much more descriptive text exceeding fifty characters''
      = None"
proof -
  have a: "get_contextual_translation ds ''Psychic'' ''Psychic'' =
     (if has_key (item_translations ds) ''Psychic'' then map_of (item_translations ds) ''Psychic''
      else if has_key (move_translations ds) ''Psychic'' then map_of (move_translations ds) ''Psychic''
      else if has_key (ability_translations ds) ''Psychic''
        then map_of (ability_translations ds) ''Psychic''
      else map_of (base_translations ds) ''Psychic'')"
    unfolding get_contextual_translation_def Let_def psychic_facts by simp
  have b: "get_contextual_translation ds ''Psychic''
        ''Hello! It is super effective because of Psychic energy and much more descriptive text exceeding fifty characters''
      = None"
    unfolding get_contextual_translation_def Let_def
    using long_context_description psychic_facts(2) by simp
  from a b show ?thesis by (rule conjI)
qed

text \<open>
  The claim C4 as stated fails when only the type dictionary has the key \<^verbatim>\<open>Psychic\<close>: the
  resolver returns nothing, not the entry of the type dictionary.
\<close>

theorem psychic_type_counterexample:
  "has_key (type_translations (empty_dictionaries\<lparr>type_translations := [(''Psychic'', ''Psico'')]\<rparr>))
     ''Psychic''
   \<and> get_contextual_translation (empty_dictionaries\<lparr>type_translations := [(''Psychic'', ''Psico'')]\<rparr>)
       ''Psychic'' ''Psychic''
     \<noteq> map_of (type_translations (empty_dictionaries\<lparr>type_translations := [(''Psychic'', ''Psico'')]\<rparr>))
         ''Psychic''"
  by code_simp

text \<open>
  Claim C2, amended. With the type dictionary \<^verbatim>\<open>{"Fire": "Fuoco"}\<close> alone, the record
  with id 5 and text \<^verbatim>\<open>This move is Fire type.\<close> is written unchanged and counted as not
  translated: the text holds the phrase \<^verbatim>\<open>this move\<close>, which makes it a description, and
  the resolver returns nothing for a single word in a description. The indicator
  \<^verbatim>\<open>type\<close> does its work in a text without such a phrase: \<^verbatim>\<open>The move is Fire type.\<close>
  becomes \<^verbatim>\<open>The move is Fuoco type.\<close>
\<close>

theorem fire_type_scenario:
  "process_single_file \<lparr>re_search = literal_search, set_iter = id\<rparr> ''strings.xml''
     (group0 (string_record ''5'' ''This move is Fire type.'')) None
     [(''type-it.json'', Some [(''Fire'', ''Fuoco'')])]
   = Inr (Some (group0 (string_record ''5'' ''This move is Fire type.''),
        initial_state\<lparr>current := 1, not_translated_count := 1,
          events := [NotTranslated ''This move is Fire type.'']\<rparr>))
   \<and> get_contextual_translation (empty_dictionaries\<lparr>type_translations := [(''Fire'', ''Fuoco'')]\<rparr>)
        ''Fire'' ''This move is Fire type.'' = None
   \<and> process_single_file \<lparr>re_search = literal_search, set_iter = id\<rparr> ''strings.xml''
     (group0 (string_record ''5'' ''The move is Fire type.'')) None
     [(''type-it.json'', Some [(''Fire'', ''Fuoco'')])]
   = Inr (Some (group0 (string_record ''5'' ''The move is Fuoco type.''),
        initial_state\<lparr>current := 1, translated_count := 1,
          events := [Translated ''The move is Fire type.'' ''The move is Fuoco type.'']\<rparr>))"
  by code_simp

text \<open>
  The claim C2 as stated fails: the cascade returns the record with its original text, which
  is not the record with the text \<^verbatim>\<open>This move is Fuoco type.\<close>
\<close>

theorem fire_type_counterexample:
  "replace_content literal_search empty_registry
     (empty_dictionaries\<lparr>type_translations := [(''Fire'', ''Fuoco'')]\<rparr>)
     [(\<lparr>lead_boundary = True, trail_boundary = True, ignore_case = True, literal = ''Fire''\<rparr>,
       ''Fire'')]
     initial_state (string_record ''5'' ''This move is Fire type.'')
   = Inr (group0 (string_record ''5'' ''This move is Fire type.''),
          initial_state\<lparr>current := 1, not_translated_count := 1,
            events := [NotTranslated ''This move is Fire type.'']\<rparr>)
   \<and> group0 (string_record ''5'' ''This move is Fire type.'')
     \<noteq> group0 (string_record ''5'' ''This move is Fuoco type.'')"
  by code_simp

section \<open>A template with an unknown variable\<close>





section \<open>The term index\<close>

lemma set_first_occurrences: "set (first_occurrences xs) = set xs"
  by (simp add: first_occurrences_def)

lemma distinct_first_occurrences: "distinct (first_occurrences xs)"
  by (simp add: first_occurrences_def)

text \<open>
  Claim C7, amended. Whatever order the interpreter iterates the set of terms in (each
  term once), the term index holds every key of the five dictionaries exactly once, the
  lengths never increase along it, and the terms of one length \<open>n\<close> stand in the order
  in which the set is iterated, which need not be the order of discovery.
\<close>

theorem term_index_order:
  assumes "distinct (iter (all_terms ds))"
    and "set (iter (all_terms ds)) = set (all_terms ds)"
  shows "distinct (sorted_terms iter ds)
    \<and> set (sorted_terms iter ds) =
        set (keys (base_translations ds)) \<union> set (keys (type_translations ds))
        \<union> set (keys (move_translations ds)) \<union> set (keys (ability_translations ds))
        \<union> set (keys (item_translations ds))
    \<and> sorted_wrt (\<lambda>s t. length t \<le> length s) (sorted_terms iter ds)
    \<and> filter (\<lambda>t. length t = n) (sorted_terms iter ds)
        = filter (\<lambda>t. length t = n) (iter (all_terms ds))"
proof -
  let ?f = "\<lambda>t::string. - int (length t)"
  have d: "distinct (sorted_terms iter ds)" using assms(1) by (simp add: sorted_terms_def)
  have s: "set (sorted_terms iter ds) =
        set (keys (base_translations ds)) \<union> set (keys (type_translations ds))
        \<union> set (keys (move_translations ds)) \<union> set (keys (ability_translations ds))
        \<union> set (keys (item_translations ds))"
    using assms(2) by (simp add: sorted_terms_def all_terms_def set_first_occurrences Un_assoc)
  have "sorted (map ?f (sort_key ?f (iter (all_terms ds))))" by (rule sorted_sort_key)
  then have o: "sorted_wrt (\<lambda>s t. length t \<le> length s) (sorted_terms iter ds)"
    by (simp add: sorted_terms_def sorted_map)
  have "filter (\<lambda>t. ?f t = - int n) (sort_key ?f (iter (all_terms ds)))
        = filter (\<lambda>t. ?f t = - int n) (iter (all_terms ds))"
    by (rule sort_key_stable)
  then have t: "filter (\<lambda>t. length t = n) (sorted_terms iter ds)
        = filter (\<lambda>t. length t = n) (iter (all_terms ds))"
    by (simp add: sorted_terms_def)
  from d s o t show ?thesis by blast
qed

theorem term_index_order_witness:
  "distinct (rev (all_terms (empty_dictionaries\<lparr>base_translations := [(''ab'', ''x''), (''Fire Punch'', ''y'')],
        move_translations := [(''cd'', ''z''), (''ab'', ''w'')]\<rparr>)))
   \<and> set (rev (all_terms (empty_dictionaries\<lparr>base_translations := [(''ab'', ''x''), (''Fire Punch'', ''y'')],
        move_translations := [(''cd'', ''z''), (''ab'', ''w'')]\<rparr>)))
     = set (all_terms (empty_dictionaries\<lparr>base_translations := [(''ab'', ''x''), (''Fire Punch'', ''y'')],
        move_translations := [(''cd'', ''z''), (''ab'', ''w'')]\<rparr>))
   \<and> sorted_terms rev (empty_dictionaries\<lparr>base_translations := [(''ab'', ''x''), (''Fire Punch'', ''y'')],
        move_translations := [(''cd'', ''z''), (''ab'', ''w'')]\<rparr>) = [''Fire Punch'', ''cd'', ''ab'']
   \<and> sorted_wrt (\<lambda>s t. length t \<le> length s)
       (sorted_terms rev (empty_dictionaries\<lparr>base_translations := [(''ab'', ''x''), (''Fire Punch'', ''y'')],
        move_translations := [(''cd'', ''z''), (''ab'', ''w'')]\<rparr>))"
proof -
  let ?ds = "empty_dictionaries\<lparr>base_translations := [(''ab'', ''x''), (''Fire Punch'', ''y'')],
        move_translations := [(''cd'', ''z''), (''ab'', ''w'')]\<rparr>"
  have a: "all_terms ?ds = [''ab'', ''Fire Punch'', ''cd'']" by code_simp
  have h1: "distinct (rev (all_terms ?ds))" unfolding a by simp
  have h2: "set (rev (all_terms ?ds)) = set (all_terms ?ds)" by simp
  have v: "sorted_terms rev ?ds = [''Fire Punch'', ''cd'', ''ab'']" by code_simp
  from term_index_order[where iter = rev and ds = ?ds, OF h1 h2] h1 h2 v show ?thesis by simp
qed

text \<open>
  The claim C7 as stated fails for two terms of one length when the set is iterated in the
  reverse of the order of insertion: \<^verbatim>\<open>ab\<close> is discovered first and stands last, and the
  lengths do not strictly decrease.
\<close>

theorem term_index_ties_counterexample:
  "all_terms (empty_dictionaries\<lparr>base_translations := [(''ab'', ''x''), (''cd'', ''y'')]\<rparr>)
     = [''ab'', ''cd'']
   \<and> sorted_terms rev (empty_dictionaries\<lparr>base_translations := [(''ab'', ''x''), (''cd'', ''y'')]\<rparr>)
     = [''cd'', ''ab'']
   \<and> \<not> length ''ab'' < length ''cd''"
  by code_simp

section \<open>The blocks\<close>

lemma contains_iff: "contains s sub \<longleftrightarrow> (\<exists>i \<le> length s. prefix sub (drop i s))"
proof (induction s)
  case Nil
  show ?case by auto
next
  case (Cons c cs)
  show ?case
  proof
    assume "contains (c # cs) sub"
    then consider "prefix sub (c # cs)" | "contains cs sub" by auto
    then show "\<exists>i \<le> length (c # cs). prefix sub (drop i (c # cs))"
    proof cases
      case 1
      then have "prefix sub (drop 0 (c # cs))" by simp
      then show ?thesis by blast
    next
      case 2
      with Cons.IH obtain i where "i \<le> length cs" "prefix sub (drop i cs)" by blast
      then have "Suc i \<le> length (c # cs) \<and> prefix sub (drop (Suc i) (c # cs))" by simp
      then show ?thesis by blast
    qed
  next
    assume "\<exists>i \<le> length (c # cs). prefix sub (drop i (c # cs))"
    then obtain i where i: "i \<le> length (c # cs)" "prefix sub (drop i (c # cs))" by blast
    show "contains (c # cs) sub"
    proof (cases i)
      case 0
      with i show ?thesis by simp
    next
      case (Suc j)
      with i have "j \<le> length cs" "prefix sub (drop j cs)" by simp_all
      with Cons.IH have "contains cs sub" by blast
      then show ?thesis by simp
    qed
  qed
qed

lemma rfind_None: "rfind s sub = None \<longleftrightarrow> \<not> contains s sub"
proof -
  have "set (rev [0..<length s + 1]) = {i. i \<le> length s}" by auto
  then have "rfind s sub = None \<longleftrightarrow> \<not> (\<exists>i. i \<le> length s \<and> prefix sub (drop i s))"
    unfolding rfind_def find_None_iff by blast
  then show ?thesis unfolding contains_iff by blast
qed

lemma rfind_Some:
  assumes "rfind s sub = Some pos" and "sub \<noteq> []"
  shows "pos \<le> length s \<and> prefix sub (drop pos s) \<and> \<not> contains (drop (Suc pos) s) sub"
proof -
  let ?n = "length s"
  let ?xs = "rev [0..<?n + 1]"
  from assms(1) obtain i where i: "i < length ?xs" "prefix sub (drop (?xs ! i) s)" "pos = ?xs ! i"
    and least: "\<forall>j < i. \<not> prefix sub (drop (?xs ! j) s)"
    unfolding rfind_def find_Some_iff by blast
  have nth: "?xs ! j = ?n - j" if "j < ?n + 1" for j
    using that by (simp add: rev_nth del: upt_Suc)
  have len: "length ?xs = ?n + 1" by simp
  have pos: "pos = ?n - i" using i(1,3) nth len by simp
  have p1: "pos \<le> ?n" using pos by simp
  have p2: "prefix sub (drop pos s)" using i(2,3) by simp
  have p3: "\<not> contains (drop (Suc pos) s) sub"
  proof
    assume "contains (drop (Suc pos) s) sub"
    then obtain k where k: "k \<le> length (drop (Suc pos) s)" "prefix sub (drop k (drop (Suc pos) s))"
      unfolding contains_iff by blast
    have ne: "drop (k + Suc pos) s \<noteq> []" using k(2) assms(2) by (auto simp: add.commute)
    then have lt: "k + Suc pos < ?n" by simp
    let ?j = "?n - (k + Suc pos)"
    have "?j < i" using lt pos i(1) len by simp
    moreover have "?xs ! ?j = k + Suc pos" using lt nth[of ?j] by simp
    ultimately have "\<not> prefix sub (drop (k + Suc pos) s)" using least by metis
    with k(2) show False by (simp add: add.commute)
  qed
  from p1 p2 p3 show ?thesis by blast
qed

lemma apply_add_block_other:
  "file_path \<noteq> normalize_path input_file \<Longrightarrow>
   apply_add_block input_file (file_path, block) out = out"
  by (cases out) (simp add: apply_add_block_def)

lemma apply_add_blocks_others:
  "normalize_path input_file \<notin> fst ` set blocks \<Longrightarrow> apply_add_blocks input_file blocks out = out"
proof (induction blocks arbitrary: out)
  case Nil
  show ?case by (simp add: apply_add_blocks_def)
next
  case (Cons b blocks)
  obtain p bi where b: "b = (p, bi)" by (cases b)
  from Cons.prems b have "p \<noteq> normalize_path input_file" by auto
  then have "apply_add_block input_file b out = out" unfolding b by (rule apply_add_block_other)
  moreover from Cons.prems have "normalize_path input_file \<notin> fst ` set blocks" by auto
  ultimately show ?case using Cons.IH by (simp add: apply_add_blocks_def)
qed

lemma apply_add_blocks_single:
  assumes "distinct (map fst blocks)" and "(normalize_path input_file, block) \<in> set blocks"
  shows "apply_add_blocks input_file blocks out
         = apply_add_block input_file (normalize_path input_file, block) out"
  using assms
proof (induction blocks arbitrary: out)
  case Nil
  then show ?case by simp
next
  case (Cons b blocks)
  show ?case
  proof (cases "b = (normalize_path input_file, block)")
    case True
    with Cons.prems(1) have "normalize_path input_file \<notin> fst ` set blocks" by auto
    then have "apply_add_blocks input_file blocks (apply_add_block input_file b out)
               = apply_add_block input_file b out"
      by (rule apply_add_blocks_others)
    with True show ?thesis by (simp add: apply_add_blocks_def)
  next
    case False
    with Cons.prems(2) have mem: "(normalize_path input_file, block) \<in> set blocks" by auto
    obtain p bi where b: "b = (p, bi)" by (cases b)
    from Cons.prems(1) mem b have "p \<noteq> normalize_path input_file" by (auto simp: image_iff)
    then have "apply_add_block input_file b out = out" unfolding b by (rule apply_add_block_other)
    moreover have "apply_add_blocks input_file blocks out
         = apply_add_block input_file (normalize_path input_file, block) out"
      using Cons.prems(1) mem by (intro Cons.IH) simp_all
    ultimately show ?thesis by (simp add: apply_add_blocks_def)
  qed
qed

lemma main_translation_blocks:
  "main_translation (reg\<lparr>add_block_data := b\<rparr>) ds main_term t = main_translation reg ds main_term t"
  by (cases main_term) (simp_all add: main_translation_def)

lemma try_patterns_blocks:
  "try_patterns search (reg\<lparr>add_block_data := b\<rparr>) ds sid t st ps
   = try_patterns search reg ds sid t st ps"
  by (induction ps) (simp_all add: main_translation_blocks Let_def split: re_outcome.split)

lemma replace_content_blocks:
  "replace_content search (reg\<lparr>add_block_data := b\<rparr>) ds cps st m
   = replace_content search reg ds cps st m"
  by (simp add: replace_content_def transform_step_def special_case_step_def try_patterns_blocks
      Let_def split: option.split sum.split prod.split)

lemma replace_segments_blocks:
  "replace_segments search (reg\<lparr>add_block_data := b\<rparr>) ds cps st segs
   = replace_segments search reg ds cps st segs"
proof (induction segs arbitrary: st)
  case Nil
  show ?case by simp
next
  case (Cons seg segs)
  then show ?case
    by (cases seg) (simp_all add: replace_content_blocks split: sum.split prod.split)
qed

lemma translate_document_blocks:
  "translate_document search (reg\<lparr>add_block_data := b\<rparr>) ds cps xml
   = translate_document search reg ds cps xml"
  by (simp add: translate_document_def replace_segments_blocks)

lemma load_special_cases_blocks:
  "fst (load_special_cases (Some scd))
   = (fst (load_special_cases (Some (scd\<lparr>add_block := []\<rparr>))))\<lparr>add_block_data := add_block scd\<rparr>"
  by (simp add: load_special_cases_def Let_def split_beta)

text \<open>
  Claim C9. Let the add-block entries have distinct paths (they are the keys of a
  dictionary), let one of them have the normalised path of the input file and a content
  that is not empty, and let the run without any block write the text \<open>translated\<close>. Then
  the run with the blocks writes \<open>translated\<close> with the content and a line feed inserted
  before the last \<^verbatim>\<open></\<close>, and prints that the block was added; when \<open>translated\<close> holds
  no \<^verbatim>\<open></\<close> it writes \<open>translated\<close> and prints the error. The position found is the
  last one: \<^verbatim>\<open></\<close> starts there and does not occur after it. The content goes into the
  output as it is: it is no part of the text that the record pass reads.
\<close>

theorem add_block_after_translation:
  assumes "distinct (map fst (add_block scd))"
    and "(normalize_path input_file, block) \<in> set (add_block scd)"
    and "content block \<noteq> []"
    and "process_single_file env input_file xml (Some (scd\<lparr>add_block := []\<rparr>)) files
           = Inr (Some (translated, st))"
  shows "process_single_file env input_file xml (Some scd) files =
           Inr (Some
             (case rfind translated ''</'' of
                Some pos \<Rightarrow>
                  (take pos translated @ content block @ [CHR 0x0A] @ drop pos translated,
                   st\<lparr>events := events st @ [BlockAdded (normalize_path input_file)]\<rparr>)
              | None \<Rightarrow>
                  (translated,
                   st\<lparr>events := events st @ [ClosingTagNotFound (normalize_path input_file)]\<rparr>)))
    \<and> (case rfind translated ''</'' of
          Some pos \<Rightarrow> prefix ''</'' (drop pos translated)
                      \<and> \<not> contains (drop (Suc pos) translated) ''</''
        | None \<Rightarrow> \<not> contains translated ''</'')"
proof -
  let ?base = "fst (load_special_cases (Some (scd\<lparr>add_block := []\<rparr>)))"
  let ?r = "fst (load_special_cases (Some scd))"
  have r: "?r = ?base\<lparr>add_block_data := add_block scd\<rparr>" by (rule load_special_cases_blocks)
  have b0: "add_block_data ?base = []"
    by (simp add: load_special_cases_def Let_def split_beta)
  let ?ds = "load_translations files (global_add_translations ?base)"
  have ga: "global_add_translations ?r = global_add_translations ?base" unfolding r by simp
  from assms(4) have ne: "\<not> dictionaries_empty ?ds"
    by (auto simp: process_single_file_def Let_def)
  from assms(4) ne obtain cps where
    cps: "compile_patterns (sorted_terms (set_iter env) ?ds) = Inr cps"
    by (auto simp: process_single_file_def Let_def split: sum.splits)
  from assms(4) ne cps have td: "translate_document (re_search env) ?base ?ds cps xml = Inr (translated, st)"
    by (auto simp: process_single_file_def Let_def b0 apply_add_blocks_def split: sum.splits)
  have td': "translate_document (re_search env) ?r ?ds cps xml = Inr (translated, st)"
    unfolding r translate_document_blocks by (rule td)
  have blocks: "apply_add_blocks input_file (add_block scd) (translated, st)
        = apply_add_block input_file (normalize_path input_file, block) (translated, st)"
    using assms(1,2) by (rule apply_add_blocks_single)
  have bd: "add_block_data ?r = add_block scd" unfolding r by simp
  have p: "process_single_file env input_file xml (Some scd) files
        = Inr (Some (apply_add_block input_file (normalize_path input_file, block) (translated, st)))"
    using ne cps td' by (simp add: process_single_file_def Let_def ga bd blocks)
  have one: "apply_add_block input_file (normalize_path input_file, block) (translated, st) =
             (case rfind translated ''</'' of
                Some pos \<Rightarrow>
                  (take pos translated @ content block @ [CHR 0x0A] @ drop pos translated,
                   st\<lparr>events := events st @ [BlockAdded (normalize_path input_file)]\<rparr>)
              | None \<Rightarrow>
                  (translated,
                   st\<lparr>events := events st @ [ClosingTagNotFound (normalize_path input_file)]\<rparr>))"
    using assms(3) by (simp add: apply_add_block_def)
  have last: "(case rfind translated ''</'' of
          Some pos \<Rightarrow> prefix ''</'' (drop pos translated)
                      \<and> \<not> contains (drop (Suc pos) translated) ''</''
        | None \<Rightarrow> \<not> contains translated ''</'')"
  proof (cases "rfind translated ''</''")
    case None
    then show ?thesis using rfind_None[of translated "''</''"] by simp
  next
    case (Some pos)
    then show ?thesis using rfind_Some[of translated "''</''" pos] by simp
  qed
  from p one last show ?thesis by simp
qed

theorem add_block_after_translation_witness:
  "distinct (map fst (add_block block_cases))
   \<and> (normalize_path (''lang'' @ [backslash] @ ''strings.xml''),
        \<lparr>content = group0 (string_record ''99'' ''Fire''), block_reason = ''extra''\<rparr>)
       \<in> set (add_block block_cases)
   \<and> process_single_file example_env (''lang'' @ [backslash] @ ''strings.xml'')
        (''<resources>'' @ group0 (string_record ''1'' ''Fire'') @ ''</resources>'')
        (Some (block_cases\<lparr>add_block := []\<rparr>)) [(''it.json'', Some [(''Fire'', ''Fuoco'')])]
      = Inr (Some (''<resources>'' @ group0 (string_record ''1'' ''Fuoco'') @ ''</resources>'',
               initial_state\<lparr>current := 1, translated_count := 1,
                 events := [Translated ''Fire'' ''Fuoco'']\<rparr>))
   \<and> process_single_file example_env (''lang'' @ [backslash] @ ''strings.xml'')
        (''<resources>'' @ group0 (string_record ''1'' ''Fire'') @ ''</resources>'')
        (Some block_cases) [(''it.json'', Some [(''Fire'', ''Fuoco'')])]
      = Inr (Some (''<resources>'' @ group0 (string_record ''1'' ''Fuoco'')
                   @ group0 (string_record ''99'' ''Fire'') @ [CHR 0x0A] @ ''</resources>'',
               initial_state\<lparr>current := 1, translated_count := 1,
                 events := [Translated ''Fire'' ''Fuoco'', BlockAdded ''lang/strings.xml'']\<rparr>))"
proof -
  let ?input = "''lang'' @ [backslash] @ ''strings.xml''"
  let ?block = "\<lparr>content = group0 (string_record ''99'' ''Fire''), block_reason = ''extra''\<rparr>"
  let ?xml = "''<resources>'' @ group0 (string_record ''1'' ''Fire'') @ ''</resources>''"
  let ?T = "''<resources>'' @ group0 (string_record ''1'' ''Fuoco'') @ ''</resources>''"
  let ?st = "initial_state\<lparr>current := 1, translated_count := 1,
                 events := [Translated ''Fire'' ''Fuoco'']\<rparr>"
  have h1: "distinct (map fst (add_block block_cases))" by code_simp
  have h2: "(normalize_path ?input, ?block) \<in> set (add_block block_cases)" by code_simp
  have h3: "content ?block \<noteq> []" by code_simp
  have h4: "process_single_file example_env ?input ?xml (Some (block_cases\<lparr>add_block := []\<rparr>))
              [(''it.json'', Some [(''Fire'', ''Fuoco'')])] = Inr (Some (?T, ?st))"
    by code_simp
  have np: "normalize_path ?input = ''lang/strings.xml''" by code_simp
  have rf: "rfind ?T ''</'' = Some 40" by code_simp
  have v: "(take 40 ?T @ content ?block @ [CHR 0x0A] @ drop 40 ?T)
        = ''<resources>'' @ group0 (string_record ''1'' ''Fuoco'')
                   @ group0 (string_record ''99'' ''Fire'') @ [CHR 0x0A] @ ''</resources>''"
    by code_simp
  from add_block_after_translation[OF h1 h2 h3 h4] h1 h2 h4 show ?thesis
    unfolding np rf using v by simp
qed

end
